theory Spec2Isabelle
  imports Main "HOL-Library.Word"
begin

section \<open>Strings, as the client uses them\<close>

text \<open>
  JavaScript strings are modelled as \<^typ>\<open>string\<close>, the bytes of their UTF-8 form.
  The functions below are the String methods the client calls: \<open>startsWith\<close>,
  \<open>includes\<close> (here \<open>str_includes\<close>), \<open>replace\<close> with a literal pattern and an
  empty replacement, \<open>replace(/\/$/, '')\<close>, \<open>trim\<close> and \<open>toLowerCase\<close>. The
  client uses lower-cased text only to search it for ASCII words; \<open>toLowerCase\<close>
  changes the ASCII capitals and leaves every other byte as it is.
\<close>

fun startsWith :: "string \<Rightarrow> string \<Rightarrow> bool" where
  "startsWith s [] = True"
| "startsWith [] (p # ps) = False"
| "startsWith (c # cs) (p # ps) = (c = p \<and> startsWith cs ps)"

fun str_includes :: "string \<Rightarrow> string \<Rightarrow> bool" where
  "str_includes [] p = (p = [])"
| "str_includes (c # cs) p = (startsWith (c # cs) p \<or> str_includes cs p)"

text \<open>\<open>s.replace(pat, '')\<close>: the first occurrence of \<open>pat\<close> is removed.\<close>

fun remove_first :: "string \<Rightarrow> string \<Rightarrow> string" where
  "remove_first [] pat = []"
| "remove_first (c # cs) pat =
     (if startsWith (c # cs) pat then drop (length pat) (c # cs)
      else c # remove_first cs pat)"

text \<open>\<open>s.replace(/\/$/, '')\<close>: one slash at the very end of the string is removed.\<close>

definition strip_trailing_slash :: "string \<Rightarrow> string" where
  "strip_trailing_slash s = (if s \<noteq> [] \<and> last s = CHR ''/'' then butlast s else s)"

text \<open>
  The white space and line terminators of ECMAScript, each as its UTF-8 bytes: tab, line
  feed, vertical tab, form feed, carriage return, space, U+00A0, U+1680, U+2000 to
  U+200A, U+2028, U+2029, U+202F, U+205F, U+3000 and U+FEFF.
\<close>

definition white_space :: "string list" where
  "white_space =
     [[CHR 0x09], [CHR 0x0A], [CHR 0x0B], [CHR 0x0C], [CHR 0x0D], [CHR 0x20],
      [CHR 0xC2, CHR 0xA0],
      [CHR 0xE1, CHR 0x9A, CHR 0x80],
      [CHR 0xE2, CHR 0x80, CHR 0x80], [CHR 0xE2, CHR 0x80, CHR 0x81],
      [CHR 0xE2, CHR 0x80, CHR 0x82], [CHR 0xE2, CHR 0x80, CHR 0x83],
      [CHR 0xE2, CHR 0x80, CHR 0x84], [CHR 0xE2, CHR 0x80, CHR 0x85],
      [CHR 0xE2, CHR 0x80, CHR 0x86], [CHR 0xE2, CHR 0x80, CHR 0x87],
      [CHR 0xE2, CHR 0x80, CHR 0x88], [CHR 0xE2, CHR 0x80, CHR 0x89],
      [CHR 0xE2, CHR 0x80, CHR 0x8A],
      [CHR 0xE2, CHR 0x80, CHR 0xA8], [CHR 0xE2, CHR 0x80, CHR 0xA9],
      [CHR 0xE2, CHR 0x80, CHR 0xAF],
      [CHR 0xE2, CHR 0x81, CHR 0x9F],
      [CHR 0xE3, CHR 0x80, CHR 0x80],
      [CHR 0xEF, CHR 0xBB, CHR 0xBF]]"

text \<open>
  \<open>strip_leading ws s\<close> removes from the front of \<open>s\<close> every character whose bytes
  are listed in \<open>ws\<close>. \<open>trim\<close> does it at both ends; at the end of the text the
  bytes are matched backwards.
\<close>

function strip_leading :: "string list \<Rightarrow> string \<Rightarrow> string" where
  "strip_leading ws s =
     (case find (\<lambda>w. w \<noteq> [] \<and> startsWith s w) ws of
        None \<Rightarrow> s
      | Some w \<Rightarrow> strip_leading ws (drop (length w) s))"
  by pat_completeness auto
termination
proof (relation "measure (\<lambda>(ws, s). length s)")
  show "wf (measure (\<lambda>(ws, s). length s))" by simp
next
  fix ws :: "string list" and s w :: string
  assume "find (\<lambda>w. w \<noteq> [] \<and> startsWith s w) ws = Some w"
  then have w: "w \<noteq> []" and sw: "startsWith s w"
    by (auto simp: find_Some_iff)
  from w sw have "s \<noteq> []" by (cases s; cases w) auto
  with w show "((ws, drop (length w) s), (ws, s)) \<in> measure (\<lambda>(ws, s). length s)"
    by simp
qed

definition trim :: "string \<Rightarrow> string" where
  "trim s = rev (strip_leading (map rev white_space) (rev (strip_leading white_space s)))"

definition lower_char :: "char \<Rightarrow> char" where
  "lower_char c =
     (if (65::nat) \<le> of_char c \<and> (of_char c :: nat) \<le> 90
      then char_of (of_char c + (32::nat)) else c)"

definition toLowerCase :: "string \<Rightarrow> string" where
  "toLowerCase s = map lower_char s"

text \<open>
  Decimal rendering of a whole number inside a template literal. JavaScript prints every
  digit of a number below \<open>10^21\<close>; the client renders status codes, list positions
  and four-byte fault codes, all far below it.
\<close>

definition digit_char :: "nat \<Rightarrow> char" where
  "digit_char d = char_of (48 + d)"

fun show_nat :: "nat \<Rightarrow> string" where
  "show_nat n = (if n < 10 then [digit_char n] else show_nat (n div 10) @ [digit_char (n mod 10)])"

definition show_int :: "int \<Rightarrow> string" where
  "show_int i = (if i < 0 then CHR ''-'' # show_nat (nat (- i)) else show_nat (nat i))"

text \<open>
  \<open>[...new Set(xs)]\<close>: the Set keeps one copy of each element, in the order of first
  insertion. \<open>set_add\<close> is \<open>Set.prototype.add\<close> on the insertion-ordered contents.
\<close>

definition set_add :: "'a list \<Rightarrow> 'a \<Rightarrow> 'a list" where
  "set_add seen x = (if x \<in> set seen then seen else seen @ [x])"

definition uniq :: "'a list \<Rightarrow> 'a list" where
  "uniq xs = foldl set_add [] xs"

section \<open>Endpoint resolver\<close>

text \<open>
  The fields of a WHATWG \<open>URL\<close> object that the client reads. The \<open>URL\<close> constructor
  belongs to the platform, not to the repository: every function that calls
  \<open>new URL(...)\<close> takes it as the parameter \<open>newURL\<close>, where \<open>None\<close> is the
  \<open>TypeError\<close> the constructor throws on an address it cannot parse.
\<close>

record URL =
  protocol :: string
  hostname :: string
  port :: string
  pathname :: string

record url_check =
  isValid :: bool
  suggestions :: "string list"

definition validateAndSuggestUrls :: "(string \<Rightarrow> URL option) \<Rightarrow> string \<Rightarrow> url_check" where
  "validateAndSuggestUrls newURL configUrl =
     (case newURL configUrl of
        Some u \<Rightarrow>
          (let root = (if pathname u = ''/'' \<or> pathname u = ''''
                       then [strip_trailing_slash configUrl @ ''/xmlrpc/2/common''] else []);
               noport = (if port u = ''''
                         then [protocol u @ ''//'' @ hostname u @ '':8069/xmlrpc/2/common'',
                               protocol u @ ''//'' @ hostname u @ '':443/xmlrpc/2/common'']
                         else []);
               baseUrl = protocol u @ ''//'' @ hostname u
                         @ (if port u \<noteq> '''' then '':'' @ port u else '''')
           in \<lparr>isValid = True,
               suggestions = uniq (root @ noport @
                 [baseUrl @ ''/xmlrpc/2/common'',
                  baseUrl @ '':8069/xmlrpc/2/common'',
                  baseUrl @ ''/odoo/xmlrpc/2/common'',
                  baseUrl @ ''/web/xmlrpc/2/common''])\<rparr>)
      | None \<Rightarrow>
          \<lparr>isValid = False,
           suggestions = uniq (if \<not> startsWith configUrl ''http''
                               then [''https://'' @ configUrl @ ''/xmlrpc/2/common'',
                                     ''http://'' @ configUrl @ '':8069/xmlrpc/2/common'']
                               else [])\<rparr>)"

text \<open>
  Results of the platform's \<open>URL\<close> constructor on a few addresses, for evaluating the
  definitions on concrete inputs. Only the listed addresses are meant; every other
  address is treated as one the constructor rejects. The constructor reports an empty
  \<open>port\<close> for an address without a port and for one that names the default port of
  its scheme, as \<open>http://localhost:80\<close> does.
\<close>

definition url_table :: "string \<Rightarrow> URL option" where
  "url_table a =
     (if a = ''https://acme.example.com''
      then Some \<lparr>protocol = ''https:'', hostname = ''acme.example.com'', port = '''', pathname = ''/''\<rparr>
      else if a = ''http://localhost''
      then Some \<lparr>protocol = ''http:'', hostname = ''localhost'', port = '''', pathname = ''/''\<rparr>
      else if a = ''http://localhost:80''
      then Some \<lparr>protocol = ''http:'', hostname = ''localhost'', port = '''', pathname = ''/''\<rparr>
      else if a = ''http://localhost:8070''
      then Some \<lparr>protocol = ''http:'', hostname = ''localhost'', port = ''8070'', pathname = ''/''\<rparr>
      else None)"

section \<open>Configuration, outcomes and the HTTP layer\<close>

record OdooConfig =
  url :: string
  database :: string
  username :: string
  password :: string

text \<open>\<open>OdooResponse<T>\<close>: \<open>None\<close> in \<open>data\<close> or \<open>error\<close> is an absent property.\<close>

record 'a OdooResponse =
  success :: bool
  data :: "'a option"
  error :: "string option"

text \<open>
  \<open>parseInt(s)\<close>: leading white space, an optional sign, an optional \<open>0x\<close> prefix, then
  the longest run of digits; \<open>None\<close> is \<open>NaN\<close>. The value is exact below \<open>2^53\<close>,
  which covers every port.
\<close>

definition is_digit :: "char \<Rightarrow> bool" where
  "is_digit c = ((48::nat) \<le> of_char c \<and> (of_char c :: nat) \<le> 57)"

definition is_hex_digit :: "char \<Rightarrow> bool" where
  "is_hex_digit c = (is_digit c \<or> ((97::nat) \<le> of_char c \<and> (of_char c :: nat) \<le> 102)
                     \<or> ((65::nat) \<le> of_char c \<and> (of_char c :: nat) \<le> 70))"

definition digit_val :: "char \<Rightarrow> nat" where
  "digit_val c = (if is_digit c then of_char c - 48
                  else if (97::nat) \<le> of_char c then of_char c - 87 else of_char c - 55)"

definition parseInt :: "string \<Rightarrow> int option" where
  "parseInt s =
     (let t = strip_leading white_space s;
          neg = startsWith t ''-'';
          t1 = (if startsWith t ''-'' \<or> startsWith t ''+'' then drop 1 t else t);
          hex = (startsWith t1 ''0x'' \<or> startsWith t1 ''0X'');
          t2 = (if hex then drop 2 t1 else t1);
          radix = (if hex then 16 else 10);
          ds = takeWhile (if hex then is_hex_digit else is_digit) t2;
          v = int (foldl (\<lambda>a c. a * radix + digit_val c) 0 ds)
      in if ds = [] then None else Some (if neg then - v else v))"

text \<open>
  The \<open>options\<close> object handed to \<open>http.request\<close> or \<open>https.request\<close>;
  \<open>via_https\<close> says which of the two modules is called, and \<open>rejectUnauthorized\<close>
  is present only on the secure path.
\<close>

record request_options =
  via_https :: bool
  opt_hostname :: string
  opt_port :: int
  opt_path :: string
  opt_method :: string
  opt_headers :: "(string \<times> string) list"
  opt_timeout :: nat
  rejectUnauthorized :: "bool option"

text \<open>
  What the network does with one request, as far as the client listens. \<open>Response\<close>:
  the response callback runs with the head (status code, status message, headers with
  lower-case names); afterwards the response either delivers its text and emits \<open>end\<close>
  (\<open>Body\<close>), or the connection is lost and \<open>end\<close> never comes (\<open>Aborted\<close>: the
  response object gets \<open>aborted\<close>, \<open>error\<close> and \<open>close\<close>, to which the client does
  not listen, and the request gets no further event). \<open>RequestError\<close>: the request's
  \<open>error\<close> event, with the error's message. \<open>RequestTimeout\<close>: the request's
  \<open>timeout\<close> event; for the body fetch this is also a timeout event that comes after
  the head and before \<open>end\<close>. Each promise is settled by the first event that
  resolves it, so later events of the same request change nothing. The network is the parameter \<open>net\<close>
  of every function that sends a request.
\<close>

datatype response_body = Body string | Aborted

datatype http_event =
    Response nat string "(string \<times> string) list" response_body
  | RequestError string
  | RequestTimeout

text \<open>
  A promise that gives no value: it rejects with a thrown error, or it never settles.
  Results are \<open>no_value + 'a\<close>, with \<open>Inr\<close> for the value a promise resolves to.
\<close>

datatype js_error = TypeError_Invalid_URL

datatype no_value = Throws js_error | Never_settles

record probe_data =
  status :: nat
  contentType :: "string option"
  headers :: "(string \<times> string) list"

text \<open>\<open>parseInt(url.port) || (isSecure ? 443 : 8069)\<close>\<close>

definition request_port :: "URL \<Rightarrow> int" where
  "request_port u =
     (case parseInt (port u) of
        Some n \<Rightarrow> if n \<noteq> 0 then n else (if protocol u = ''https:'' then 443 else 8069)
      | None \<Rightarrow> (if protocol u = ''https:'' then 443 else 8069))"

definition testHttpEndpoint_options :: "URL \<Rightarrow> string \<Rightarrow> request_options" where
  "testHttpEndpoint_options u path =
     (let isSecure = (protocol u = ''https:'')
      in \<lparr>via_https = isSecure,
          opt_hostname = hostname u,
          opt_port = request_port u,
          opt_path = path,
          opt_method = ''POST'',
          opt_headers = [(''User-Agent'', ''Odoo-MCP-Client/1.0''),
                         (''Content-Type'', ''text/xml''),
                         (''Content-Length'', ''0'')],
          opt_timeout = 10000,
          rejectUnauthorized = (if isSecure then Some False else None)\<rparr>)"

definition testHttpEndpoint ::
  "(string \<Rightarrow> URL option) \<Rightarrow> (request_options \<Rightarrow> http_event) \<Rightarrow> OdooConfig \<Rightarrow> string
   \<Rightarrow> no_value + probe_data OdooResponse" where
  "testHttpEndpoint newURL net cfg path =
     (case newURL (url cfg) of
        None \<Rightarrow> Inl (Throws TypeError_Invalid_URL)
      | Some u \<Rightarrow>
          Inr (case net (testHttpEndpoint_options u path) of
                 Response statusCode statusMessage hs body \<Rightarrow>
                   if statusCode = 200 \<or> statusCode = 400 \<or> statusCode = 500
                   then \<lparr>success = True,
                         data = Some \<lparr>status = statusCode,
                                      contentType = map_of hs ''content-type'',
                                      headers = hs\<rparr>,
                         error = None\<rparr>
                   else if statusCode = 405
                   then \<lparr>success = False, data = None,
                         error = Some ''HTTP 405: XML-RPC endpoint found but method not allowed. This usually means the endpoint is correct but needs proper XML-RPC requests.''\<rparr>
                   else \<lparr>success = False, data = None,
                         error = Some (''HTTP '' @ show_nat statusCode @ '': '' @ statusMessage
                                      @ ''. Check if XML-RPC is enabled on this Odoo instance.'')\<rparr>
               | RequestError msg \<Rightarrow>
                   \<lparr>success = False, data = None,
                    error = Some (''HTTP request failed: '' @ msg
                                  @ ''. Check URL and network connectivity.'')\<rparr>
               | RequestTimeout \<Rightarrow>
                   \<lparr>success = False, data = None,
                    error = Some ''HTTP request timed out. Server might be overloaded or unreachable.''\<rparr>))"

definition inspectResponseBody_options :: "URL \<Rightarrow> string \<Rightarrow> request_options" where
  "inspectResponseBody_options u path =
     (let isSecure = (protocol u = ''https:'')
      in \<lparr>via_https = isSecure,
          opt_hostname = hostname u,
          opt_port = request_port u,
          opt_path = path,
          opt_method = ''POST'',
          opt_headers = [(''User-Agent'', ''Odoo-MCP-Client/1.0''),
                         (''Content-Type'', ''text/xml''),
                         (''Content-Length'', ''0'')],
          opt_timeout = 5000,
          rejectUnauthorized = (if isSecure then Some False else None)\<rparr>)"

definition inspectResponseBody ::
  "(string \<Rightarrow> URL option) \<Rightarrow> (request_options \<Rightarrow> http_event) \<Rightarrow> OdooConfig \<Rightarrow> string
   \<Rightarrow> no_value + string" where
  "inspectResponseBody newURL net cfg path =
     (case newURL (url cfg) of
        None \<Rightarrow> Inl (Throws TypeError_Invalid_URL)
      | Some u \<Rightarrow>
          (case net (inspectResponseBody_options u path) of
             Response statusCode statusMessage hs (Body body) \<Rightarrow> Inr body
           | Response statusCode statusMessage hs Aborted \<Rightarrow> Inl Never_settles
           | RequestError msg \<Rightarrow> Inr ''Unable to fetch response body''
           | RequestTimeout \<Rightarrow> Inr ''Response body fetch timed out''))"

section \<open>Response validator and diagnostic classifier\<close>

text \<open>
  A value that travels over XML-RPC, with JavaScript's \<open>undefined\<close> for an absent
  one. Numbers are the integers (identities, limits, offsets, fault codes).
\<close>

datatype rpc_value =
    VUndefined
  | VNull
  | VBool bool
  | VNum int
  | VStr string
  | VArr "rpc_value list"
  | VStruct "(string \<times> rpc_value) list"

fun truthy :: "rpc_value \<Rightarrow> bool" where
  "truthy VUndefined = False"
| "truthy VNull = False"
| "truthy (VBool b) = b"
| "truthy (VNum n) = (n \<noteq> 0)"
| "truthy (VStr s) = (s \<noteq> [])"
| "truthy (VArr xs) = True"
| "truthy (VStruct kvs) = True"

text \<open>
  The error object of a \<open>methodCall\<close> callback: \<open>message\<close> is absent or a string,
  \<open>code\<close> is absent, a string (a system error code) or a number (the fault code of an
  XML-RPC fault, an \<open>int\<close> of four bytes).
\<close>

datatype err_code = NoCode | CodeStr string | CodeNum "32 word"

record rpc_error =
  message :: "string option"
  code :: err_code

text \<open>\<open>error.message || error.code || 'Unknown error'\<close>, rendered in a template.\<close>

definition error_text :: "rpc_error \<Rightarrow> string" where
  "error_text e =
     (let code_text = (case code e of
                         NoCode \<Rightarrow> ''Unknown error''
                       | CodeStr c \<Rightarrow> if c \<noteq> [] then c else ''Unknown error''
                       | CodeNum n \<Rightarrow> if n \<noteq> 0 then show_int (sint n) else ''Unknown error'')
      in case message e of
           None \<Rightarrow> code_text
         | Some m \<Rightarrow> if m \<noteq> [] then m else code_text)"

text \<open>
  \<open>s.match(re)\<close> for a regular expression without the global flag: the match that
  starts leftmost. \<open>m\<close> decides whether the expression matches at the start of a string
  and returns its first group.
\<close>

fun first_match :: "(string \<Rightarrow> 'a option) \<Rightarrow> string \<Rightarrow> 'a option" where
  "first_match m [] = m []"
| "first_match m (c # cs) = (case m (c # cs) of Some r \<Rightarrow> Some r | None \<Rightarrow> first_match m cs)"

definition tag_signature :: string where
  "tag_signature = ''Unknown XML-RPC tag '' @ [CHR 0x27]"

text \<open>
  \<open>/Unknown XML-RPC tag '([^']+)'/\<close> at the start of \<open>s\<close>: the group takes every
  character up to the next apostrophe, must not be empty, and the apostrophe must be
  there.
\<close>

definition unknown_tag_at :: "string \<Rightarrow> string option" where
  "unknown_tag_at s =
     (if startsWith s tag_signature
      then (let r = drop (length tag_signature) s;
                t = takeWhile (\<lambda>c. c \<noteq> CHR 0x27) r;
                r1 = dropWhile (\<lambda>c. c \<noteq> CHR 0x27) r
            in if t \<noteq> [] \<and> r1 \<noteq> [] then Some t else None)
      else None)"

text \<open>
  \<open>/<title[^>]*>([^<]+)<\/title>/i\<close> at the start of \<open>s\<close>. The letters of the
  pattern are ASCII, so ignoring case is comparing the lower-cased text.
\<close>

definition title_at :: "string \<Rightarrow> string option" where
  "title_at s =
     (if toLowerCase (take 6 s) = ''<title''
      then (case dropWhile (\<lambda>c. c \<noteq> CHR ''>'') (drop 6 s) of
              [] \<Rightarrow> None
            | gt # r \<Rightarrow>
                (let t = takeWhile (\<lambda>c. c \<noteq> CHR ''<'') r;
                     r1 = dropWhile (\<lambda>c. c \<noteq> CHR ''<'') r
                 in if t \<noteq> [] \<and> toLowerCase (take 8 r1) = ''</title>'' then Some t else None))
      else None)"

definition nl :: string where
  "nl = [CHR 0x0A]"

definition title_part :: "string \<Rightarrow> string" where
  "title_part responseBody =
     (if str_includes responseBody ''<title>'' \<or> str_includes responseBody ''<TITLE>''
      then (let title = (case first_match title_at responseBody of
                           Some t \<Rightarrow> trim t
                         | None \<Rightarrow> ''Unknown'');
                low = toLowerCase title
            in nl @ nl @ ''Page title: '' @ [CHR 0x22] @ title @ [CHR 0x22]
               @ (if str_includes low ''404'' \<or> str_includes low ''not found''
                  then nl @ nl @ ''This is a 404 error page. The XML-RPC endpoint doesn''
                       @ [CHR 0x27] @ ''t exist at this URL.''
                  else if str_includes low ''login'' \<or> str_includes low ''sign in''
                  then nl @ nl @ ''This is a login page. You may need to authenticate at the web server level first.''
                  else if str_includes low ''error'' \<or> str_includes low ''exception''
                  then nl @ nl @ ''This appears to be an error page from Odoo.''
                  else []))
      else [])"

definition content_type_part :: "(string \<Rightarrow> URL option) \<Rightarrow> OdooConfig \<Rightarrow> string \<Rightarrow> string" where
  "content_type_part newURL cfg ct =
     (if str_includes ct ''text/xml''
      then nl @ nl @ ''The Content-Type suggests this should be XML-RPC, but the response contains HTML elements.''
           @ nl @ ''This usually means:''
           @ nl @ ''1. Odoo is returning an error page in XML format''
           @ nl @ ''2. Wrong database name or XML-RPC path''
           @ nl @ ''3. Odoo configuration issue''
           @ nl @ nl @ ''Check your ODOO_DATABASE setting and ensure XML-RPC is properly configured.''
      else if str_includes ct ''text/html''
      then (let urlSuggestions = validateAndSuggestUrls newURL (url cfg)
            in nl @ nl @ ''This suggests:''
               @ nl @ ''1. URL might be pointing to Odoo web interface instead of XML-RPC endpoint''
               @ nl @ ''2. XML-RPC might be disabled on this Odoo instance''
               @ nl @ ''3. Authentication might be required at web server level''
               @ nl @ ''4. Wrong port or path''
               @ nl @ nl @ ''Try these URLs in your .env file:''
               @ concat (map (\<lambda>(index, suggestion).
                                nl @ show_nat (index + 1) @ ''. ODOO_URL=''
                                @ remove_first suggestion ''/xmlrpc/2/common'')
                             (enumerate 0 (take 5 (suggestions urlSuggestions))))
               @ nl @ nl @ ''Or check if XML-RPC is enabled in Odoo configuration.'')
      else [])"

definition detailedError ::
  "(string \<Rightarrow> URL option) \<Rightarrow> OdooConfig \<Rightarrow> string option \<Rightarrow> string \<Rightarrow> probe_data OdooResponse
   \<Rightarrow> string" where
  "detailedError newURL cfg htmlTag responseBody httpTest =
     ''Server returned non-XML-RPC response (found <''
     @ (case htmlTag of Some t \<Rightarrow> t | None \<Rightarrow> ''undefined'') @ ''> tag). ''
     @ (if \<not> success httpTest
        then nl @ nl @ ''Endpoint test failed: ''
             @ (case error httpTest of Some e \<Rightarrow> e | None \<Rightarrow> ''undefined'')
        else (let ct = (case data httpTest of
                          None \<Rightarrow> ''unknown''
                        | Some d \<Rightarrow> (case contentType d of
                                       None \<Rightarrow> ''unknown''
                                     | Some c \<Rightarrow> if c \<noteq> [] then c else ''unknown''))
              in nl @ nl @ ''Endpoint returns Content-Type: '' @ ct
                 @ title_part responseBody
                 @ content_type_part newURL cfg ct))"

text \<open>
  \<open>validateXmlRpcResponse(error, result, operation)\<close>. It awaits the body fetch and
  then the probe: when an awaited sub-step throws or never settles, so does the
  validator.
\<close>

definition validateXmlRpcResponse ::
  "(string \<Rightarrow> URL option) \<Rightarrow> (request_options \<Rightarrow> http_event) \<Rightarrow> OdooConfig
   \<Rightarrow> rpc_error option \<Rightarrow> rpc_value \<Rightarrow> string \<Rightarrow> no_value + rpc_value OdooResponse" where
  "validateXmlRpcResponse newURL net cfg err result operation =
     (case err of
        None \<Rightarrow> Inr \<lparr>success = True, data = Some result, error = None\<rparr>
      | Some e \<Rightarrow>
          (case message e of
             None \<Rightarrow> Inr \<lparr>success = False, data = None,
                          error = Some (operation @ '' failed: '' @ error_text e)\<rparr>
           | Some m \<Rightarrow>
               if m \<noteq> [] \<and> str_includes m ''Unknown XML-RPC tag''
               then (let htmlTag = first_match unknown_tag_at m
                     in case inspectResponseBody newURL net cfg ''/xmlrpc/2/common'' of
                          Inl x \<Rightarrow> Inl x
                        | Inr responseBody \<Rightarrow>
                            (case testHttpEndpoint newURL net cfg ''/xmlrpc/2/common'' of
                               Inl x \<Rightarrow> Inl x
                             | Inr httpTest \<Rightarrow>
                                 Inr \<lparr>success = False, data = None,
                                      error = Some (detailedError newURL cfg htmlTag
                                                      responseBody httpTest)\<rparr>))
               else Inr \<lparr>success = False, data = None,
                         error = Some (operation @ '' failed: '' @ error_text e)\<rparr>))"

section \<open>RPC session\<close>

text \<open>
  One \<open>methodCall(method, params, callback)\<close> on \<open>commonClient\<close> or \<open>objectClient\<close>;
  \<open>method_name\<close> is its first argument.
\<close>

datatype endpoint = Common | Object

record method_call =
  client :: endpoint
  method_name :: string
  params :: "rpc_value list"

text \<open>
  The client object: its configuration, the Session Identity \<open>uid\<close> (\<open>null\<close> at
  construction), and the calls handed so far to its two transport clients, oldest first.
\<close>

record OdooClient =
  config :: OdooConfig
  uid :: rpc_value
  calls :: "method_call list"

definition new_OdooClient :: "OdooConfig \<Rightarrow> OdooClient" where
  "new_OdooClient cfg = \<lparr>config = cfg, uid = VNull, calls = []\<rparr>"

text \<open>
  What happens to a call that is raced against a \<open>setTimeout\<close>: the timer fires, or the
  transport invokes the callback with \<open>(error, result)\<close>. The transport has no way to
  cancel a call, so a callback may still arrive after the timer has fired.
\<close>

datatype call_event = TimerFired | Replied "rpc_error option" rpc_value

text \<open>
  The promise a call returns and the timer armed beside it: \<open>Some d\<close> is a timer
  armed with a delay of \<open>d\<close> milliseconds, \<open>None\<close> one that has fired or was
  cleared. \<open>resolve\<close> settles a pending promise and does nothing to a settled one.
\<close>

record pending_call =
  settled :: "rpc_value OdooResponse option"
  timer :: "nat option"

definition resolve :: "rpc_value OdooResponse \<Rightarrow> pending_call \<Rightarrow> pending_call" where
  "resolve v p = (case settled p of None \<Rightarrow> p\<lparr>settled := Some v\<rparr> | Some w \<Rightarrow> p)"

definition authenticate_call :: "OdooConfig \<Rightarrow> method_call" where
  "authenticate_call cfg =
     \<lparr>client = Common, method_name = ''authenticate'',
      params = [VStr (database cfg), VStr (username cfg), VStr (password cfg), VStruct []]\<rparr>"

definition authenticate_begin :: "OdooClient \<Rightarrow> OdooClient \<times> pending_call" where
  "authenticate_begin c =
     (c\<lparr>calls := calls c @ [authenticate_call (config c)]\<rparr>, \<lparr>settled = None, timer = Some 15000\<rparr>)"

text \<open>
  The two handlers of \<open>authenticate()\<close>. The callback clears the timer first and
  then awaits the validation: when that rejects or never settles, the rest of the
  callback does not run.
\<close>

definition authenticate_on_event ::
  "(string \<Rightarrow> URL option) \<Rightarrow> (request_options \<Rightarrow> http_event) \<Rightarrow> call_event
   \<Rightarrow> OdooClient \<times> pending_call \<Rightarrow> OdooClient \<times> pending_call" where
  "authenticate_on_event newURL net ev cp =
     (case cp of (c, p) \<Rightarrow>
        (case ev of
           TimerFired \<Rightarrow>
             if timer p \<noteq> None
             then (c, resolve \<lparr>success = False, data = None,
                               error = Some ''Authentication timed out - check your credentials and Odoo server status''\<rparr>
                        (p\<lparr>timer := None\<rparr>))
             else (c, p)
         | Replied err uidv \<Rightarrow>
             (let p1 = p\<lparr>timer := None\<rparr>
              in case validateXmlRpcResponse newURL net (config c) err uidv ''Authentication'' of
                   Inl x \<Rightarrow> (c, p1)
                 | Inr validationResult \<Rightarrow>
                     if success validationResult
                     then if \<not> truthy uidv
                          then (c, resolve \<lparr>success = False, data = None,
                                            error = Some ''Invalid credentials or API key. Check your username, database name, and API key.''\<rparr> p1)
                          else (c\<lparr>uid := uidv\<rparr>,
                                resolve \<lparr>success = True, data = Some uidv, error = None\<rparr> p1)
                     else (c, resolve validationResult p1))))"

text \<open>One call of \<open>authenticate()\<close> and every event that follows it, in order.\<close>

definition authenticate_events ::
  "(string \<Rightarrow> URL option) \<Rightarrow> (request_options \<Rightarrow> http_event) \<Rightarrow> call_event list
   \<Rightarrow> OdooClient \<Rightarrow> OdooClient \<times> pending_call" where
  "authenticate_events newURL net evs c =
     foldl (\<lambda>cp ev. authenticate_on_event newURL net ev cp) (authenticate_begin c) evs"

text \<open>
  \<open>await this.authenticate()\<close>: \<open>transport\<close> gives the first event of each call. The
  result is the value the promise settles to (\<open>None\<close> when it never settles) and the
  client at that moment.
\<close>

definition authenticate ::
  "(string \<Rightarrow> URL option) \<Rightarrow> (request_options \<Rightarrow> http_event) \<Rightarrow> (method_call \<Rightarrow> call_event)
   \<Rightarrow> OdooClient \<Rightarrow> rpc_value OdooResponse option \<times> OdooClient" where
  "authenticate newURL net transport c =
     (case authenticate_events newURL net [transport (authenticate_call (config c))] c of
        (c1, p) \<Rightarrow> (settled p, c1))"

text \<open>
  \<open>OdooSearchParams\<close>; \<open>None\<close> is an absent property. The source's \<open>fields\<close> is
  \<open>field_names\<close> here.
\<close>

record OdooSearchParams =
  domain :: "rpc_value list option"
  field_names :: "string list option"
  limit :: "int option"
  offset :: "int option"
  order :: "string option"

text \<open>The \<open>execute_kw\<close> call of \<open>searchRead\<close>, with the destructuring defaults.\<close>

definition search_read_call :: "OdooClient \<Rightarrow> string \<Rightarrow> OdooSearchParams \<Rightarrow> method_call" where
  "search_read_call c model ps =
     (let domain_v = (case domain ps of None \<Rightarrow> [] | Some d \<Rightarrow> d);
          fields_v = (case field_names ps of None \<Rightarrow> [] | Some f \<Rightarrow> f);
          limit_v = (case limit ps of None \<Rightarrow> 100 | Some l \<Rightarrow> l);
          offset_v = (case offset ps of None \<Rightarrow> 0 | Some k \<Rightarrow> k);
          order_v = (case order ps of None \<Rightarrow> ''id desc'' | Some r \<Rightarrow> r)
      in \<lparr>client = Object, method_name = ''execute_kw'',
          params = [VStr (database (config c)), uid c, VStr (password (config c)),
                    VStr model, VStr ''search_read'', VArr [VArr domain_v],
                    VStruct [(''fields'', if length fields_v > 0 then VArr (map VStr fields_v)
                                          else VUndefined),
                             (''limit'', VNum limit_v),
                             (''offset'', VNum offset_v),
                             (''order'', VStr order_v)]]\<rparr>)"

text \<open>The part of \<open>searchRead\<close> after the identity check.\<close>

definition search_query ::
  "(string \<Rightarrow> URL option) \<Rightarrow> (request_options \<Rightarrow> http_event) \<Rightarrow> (method_call \<Rightarrow> call_event)
   \<Rightarrow> OdooClient \<Rightarrow> string \<Rightarrow> OdooSearchParams \<Rightarrow> rpc_value OdooResponse option \<times> OdooClient" where
  "search_query newURL net transport c model ps =
     (let call = search_read_call c model ps;
          c1 = c\<lparr>calls := calls c @ [call]\<rparr>
      in case transport call of
           TimerFired \<Rightarrow>
             (Some \<lparr>success = False, data = None,
                    error = Some ''Search operation timed out - the query may be too complex or the server is overloaded''\<rparr>,
              c1)
         | Replied err result \<Rightarrow>
             (case validateXmlRpcResponse newURL net (config c) err result ''SearchRead'' of
                Inl x \<Rightarrow> (None, c1)
              | Inr validationResult \<Rightarrow>
                  if success validationResult
                  then (Some \<lparr>success = True,
                              data = Some (if truthy result then result else VArr []),
                              error = None\<rparr>, c1)
                  else (Some validationResult, c1)))"

definition searchRead ::
  "(string \<Rightarrow> URL option) \<Rightarrow> (request_options \<Rightarrow> http_event) \<Rightarrow> (method_call \<Rightarrow> call_event)
   \<Rightarrow> OdooClient \<Rightarrow> string \<Rightarrow> OdooSearchParams \<Rightarrow> rpc_value OdooResponse option \<times> OdooClient" where
  "searchRead newURL net transport c model ps =
     (if \<not> truthy (uid c)
      then (case authenticate newURL net transport c of
              (None, c1) \<Rightarrow> (None, c1)
            | (Some authResult, c1) \<Rightarrow>
                if \<not> success authResult
                then (Some \<lparr>success = False, data = None, error = error authResult\<rparr>, c1)
                else search_query newURL net transport c1 model ps)
      else search_query newURL net transport c model ps)"

section \<open>Example inputs\<close>

text \<open>Configurations whose addresses are in \<open>url_table\<close>.\<close>

definition example_config :: OdooConfig where
  "example_config = \<lparr>url = ''http://localhost'', database = ''db'', username = ''admin'', password = ''key''\<rparr>"

definition secure_config :: OdooConfig where
  "secure_config = \<lparr>url = ''https://acme.example.com'', database = ''db'', username = ''admin'', password = ''key''\<rparr>"

definition ported_config :: OdooConfig where
  "ported_config = \<lparr>url = ''http://localhost:8070'', database = ''db'', username = ''admin'', password = ''key''\<rparr>"

text \<open>
  A configuration whose address names the default port of its scheme, and one whose
  address has no scheme, which the URL constructor rejects.
\<close>

definition default_port_config :: OdooConfig where
  "default_port_config = \<lparr>url = ''http://localhost:80'', database = ''db'', username = ''admin'', password = ''key''\<rparr>"



text \<open>
  Networks: one that lets every request time out, one that answers every request with
  the same event, and one that sends the head of an HTML page and then loses the
  connection.
\<close>

definition net_down :: "request_options \<Rightarrow> http_event" where
  "net_down r = RequestTimeout"

definition net_always :: "http_event \<Rightarrow> request_options \<Rightarrow> http_event" where
  "net_always ev r = ev"


text \<open>
  Transports: one whose server rejects the credentials (Odoo answers \<open>false\<close>), and
  one whose server returns identity 2 and an empty row list.
\<close>

definition rejecting_transport :: "method_call \<Rightarrow> call_event" where
  "rejecting_transport k = Replied None (VBool False)"

definition accepting_transport :: "method_call \<Rightarrow> call_event" where
  "accepting_transport k =
     (if method_name k = ''authenticate'' then Replied None (VNum 2) else Replied None (VArr []))"

text \<open>
  Event sequences of one \<open>authenticate()\<close> call in which the timer fires first and the
  transport calls back afterwards, with rejected credentials or with identity 7; and one
  in which the transport calls back first, with the unknown-tag error, and the timer's
  moment comes afterwards.
\<close>

definition early_unknown_tag :: "call_event list" where
  "early_unknown_tag =
     [Replied (Some \<lparr>message = Some (''Unknown XML-RPC tag '' @ [CHR 0x27] @ ''HTML'' @ [CHR 0x27]),
                      code = NoCode\<rparr>) VUndefined,
      TimerFired]"

definition late_rejection :: "call_event list" where
  "late_rejection = [TimerFired, Replied None (VBool False)]"

definition late_identity :: "call_event list" where
  "late_identity = [TimerFired, Replied None (VNum 7)]"

text \<open>A client that already holds identity 2, and two query specifications.\<close>

definition held_client :: OdooClient where
  "held_client = \<lparr>config = example_config, uid = VNum 2, calls = []\<rparr>"

definition default_query :: OdooSearchParams where
  "default_query = \<lparr>domain = None, field_names = None, limit = None, offset = None, order = None\<rparr>"

definition big_query :: OdooSearchParams where
  "big_query = \<lparr>domain = None, field_names = None, limit = Some 5000, offset = None, order = None\<rparr>"

section \<open>Properties of the endpoint resolver\<close>




lemma distinct_set_add: "distinct seen \<Longrightarrow> distinct (set_add seen x)"
  by (simp add: set_add_def)

lemma distinct_foldl_set_add: "distinct seen \<Longrightarrow> distinct (foldl set_add seen xs)"
  by (induction xs arbitrary: seen) (simp_all add: distinct_set_add)

lemma distinct_uniq: "distinct (uniq xs)"
  by (simp add: uniq_def distinct_foldl_set_add)

lemma uniq_distinct_id_aux: "distinct (seen @ xs) \<Longrightarrow> foldl set_add seen xs = seen @ xs"
  by (induction xs arbitrary: seen) (auto simp: set_add_def)

lemma uniq_distinct_id: "distinct xs \<Longrightarrow> uniq xs = xs"
  using uniq_distinct_id_aux [of "[]" xs] by (simp add: uniq_def)

text \<open>
  C8. The resolver reads nothing but its argument and the platform's URL constructor:
  any number of calls in a row with the same address return the same validity flag and
  the same ordered suggestion list. That list has no duplicate entry, and removing
  duplicates from it again changes nothing.
\<close>

theorem validateAndSuggestUrls_repeatable_distinct:
  "map (validateAndSuggestUrls newURL) (replicate n a)
     = replicate n (validateAndSuggestUrls newURL a)
   \<and> distinct (suggestions (validateAndSuggestUrls newURL a))
   \<and> uniq (suggestions (validateAndSuggestUrls newURL a))
       = suggestions (validateAndSuggestUrls newURL a)"
proof -
  have d: "distinct (suggestions (validateAndSuggestUrls newURL a))"
    by (cases "newURL a") (simp_all add: validateAndSuggestUrls_def Let_def distinct_uniq)
  from d uniq_distinct_id [OF d] show ?thesis by simp
qed

text \<open>
  The address \<open>https://acme.example.com\<close> (no port, root path): valid, five distinct
  suggestions, among them the address with the standard sub-path, the port-8069 variant
  and the port-443 variant.
\<close>

theorem validateAndSuggestUrls_repeatable_distinct_witness:
  "isValid (validateAndSuggestUrls url_table ''https://acme.example.com'') = True
   \<and> suggestions (validateAndSuggestUrls url_table ''https://acme.example.com'')
     = [''https://acme.example.com/xmlrpc/2/common'',
        ''https://acme.example.com:8069/xmlrpc/2/common'',
        ''https://acme.example.com:443/xmlrpc/2/common'',
        ''https://acme.example.com/odoo/xmlrpc/2/common'',
        ''https://acme.example.com/web/xmlrpc/2/common'']
   \<and> distinct (suggestions (validateAndSuggestUrls url_table ''https://acme.example.com''))
   \<and> map (validateAndSuggestUrls url_table) (replicate 3 ''https://acme.example.com'')
     = replicate 3 (validateAndSuggestUrls url_table ''https://acme.example.com'')"
proof -
  have v: "isValid (validateAndSuggestUrls url_table ''https://acme.example.com'') = True"
    by (simp add: validateAndSuggestUrls_def url_table_def Let_def)
  have l: "suggestions (validateAndSuggestUrls url_table ''https://acme.example.com'')
     = [''https://acme.example.com/xmlrpc/2/common'',
        ''https://acme.example.com:8069/xmlrpc/2/common'',
        ''https://acme.example.com:443/xmlrpc/2/common'',
        ''https://acme.example.com/odoo/xmlrpc/2/common'',
        ''https://acme.example.com/web/xmlrpc/2/common'']"
    by (simp add: validateAndSuggestUrls_def url_table_def Let_def strip_trailing_slash_def
        uniq_def set_add_def)
  from v l validateAndSuggestUrls_repeatable_distinct [of url_table 3 "''https://acme.example.com''"]
  show ?thesis by simp
qed

lemma uniq_two: "a \<noteq> b \<Longrightarrow> uniq [a, b] = [a, b]"
  by (simp add: uniq_def set_add_def)

text \<open>
  C9 (as the code has it). An address the URL constructor rejects is marked invalid.
  When it does not start with \<open>http\<close>, the suggestions are exactly the address behind
  \<open>https://\<close> with the standard sub-path, then the address behind \<open>http://\<close> with
  port 8069 and the standard sub-path. When it starts with \<open>http\<close>, the guard
  \<open>!configUrl.startsWith('http')\<close> is false and nothing is suggested.
\<close>

theorem validateAndSuggestUrls_unparseable:
  assumes "newURL a = None"
  shows "isValid (validateAndSuggestUrls newURL a) = False
         \<and> suggestions (validateAndSuggestUrls newURL a) =
             (if startsWith a ''http'' then []
              else [''https://'' @ a @ ''/xmlrpc/2/common'',
                    ''http://'' @ a @ '':8069/xmlrpc/2/common''])"
proof -
  have ne: "''https://'' @ a @ ''/xmlrpc/2/common'' \<noteq> ''http://'' @ a @ '':8069/xmlrpc/2/common''"
    by simp
  show ?thesis
    using assms uniq_two [OF ne]
    by (simp add: validateAndSuggestUrls_def uniq_def)
qed

theorem validateAndSuggestUrls_unparseable_witness:
  "url_table ''acme.example.com'' = None
   \<and> isValid (validateAndSuggestUrls url_table ''acme.example.com'') = False
   \<and> suggestions (validateAndSuggestUrls url_table ''acme.example.com'') =
        [''https://acme.example.com/xmlrpc/2/common'',
         ''http://acme.example.com:8069/xmlrpc/2/common'']"
proof -
  have h: "url_table ''acme.example.com'' = None"
    by (simp add: url_table_def)
  show ?thesis
    using h validateAndSuggestUrls_unparseable [of url_table "''acme.example.com''"] by simp
qed

text \<open>
  The address \<open>http://\<close> has a scheme and no host, so the URL constructor rejects it;
  it starts with \<open>http\<close>, and the resolver suggests nothing for it.
\<close>

theorem validateAndSuggestUrls_unparseable_counterexample:
  "url_table ''http://'' = None
   \<and> isValid (validateAndSuggestUrls url_table ''http://'') = False
   \<and> suggestions (validateAndSuggestUrls url_table ''http://'') = []
   \<and> ''https://http:///xmlrpc/2/common''
        \<notin> set (suggestions (validateAndSuggestUrls url_table ''http://''))"
  by (simp add: url_table_def validateAndSuggestUrls_def uniq_def)

section \<open>Properties of the HTTP sub-steps\<close>


lemma request_port_cases:
  "request_port u =
     (case parseInt (port u) of
        None \<Rightarrow> if protocol u = ''https:'' then 443 else 8069
      | Some n \<Rightarrow> if n = 0 then (if protocol u = ''https:'' then 443 else 8069) else n)"
  by (simp add: request_port_def split: option.splits)

text \<open>
  C10 (as the code has it). Let the configured address parse to the URL object \<open>u\<close>.
  The transport probe and the body fetch both put \<open>request_port u\<close> into the port of
  their request. With the \<open>http:\<close> scheme and a \<open>port\<close> field of \<open>u\<close> that
  \<open>parseInt\<close> reads as \<open>NaN\<close> or as 0, that port is 8069, not 80; with the
  \<open>https:\<close> scheme and such a field it is 443; a \<open>port\<close> field that parses to a
  non-zero number is used as given. The field of the URL object decides, not the text of
  the address. Nothing but that port is contacted: two networks that behave alike on it
  give the same results.
\<close>

theorem request_port_scheme_default:
  assumes "newURL (url cfg) = Some u"
  shows "opt_port (testHttpEndpoint_options u path) = request_port u
         \<and> opt_port (inspectResponseBody_options u path) = request_port u
         \<and> (protocol u = ''http:'' \<and> (parseInt (port u) = None \<or> parseInt (port u) = Some 0)
              \<longrightarrow> request_port u = 8069)
         \<and> (protocol u = ''https:'' \<and> (parseInt (port u) = None \<or> parseInt (port u) = Some 0)
              \<longrightarrow> request_port u = 443)
         \<and> (\<forall>n. parseInt (port u) = Some n \<and> n \<noteq> 0 \<longrightarrow> request_port u = n)
         \<and> (\<forall>net1 net2. (\<forall>r. opt_port r = request_port u \<longrightarrow> net1 r = net2 r)
              \<longrightarrow> testHttpEndpoint newURL net1 cfg path = testHttpEndpoint newURL net2 cfg path
                  \<and> inspectResponseBody newURL net1 cfg path = inspectResponseBody newURL net2 cfg path)"
proof -
  have p1: "opt_port (testHttpEndpoint_options u path) = request_port u"
    by (simp add: testHttpEndpoint_options_def Let_def)
  have p2: "opt_port (inspectResponseBody_options u path) = request_port u"
    by (simp add: inspectResponseBody_options_def Let_def)
  have d: "\<forall>net1 net2. (\<forall>r. opt_port r = request_port u \<longrightarrow> net1 r = net2 r)
              \<longrightarrow> testHttpEndpoint newURL net1 cfg path = testHttpEndpoint newURL net2 cfg path
                  \<and> inspectResponseBody newURL net1 cfg path = inspectResponseBody newURL net2 cfg path"
    using assms p1 p2 by (simp add: testHttpEndpoint_def inspectResponseBody_def)
  have c: "(protocol u = ''http:'' \<and> (parseInt (port u) = None \<or> parseInt (port u) = Some 0)
              \<longrightarrow> request_port u = 8069)
         \<and> (protocol u = ''https:'' \<and> (parseInt (port u) = None \<or> parseInt (port u) = Some 0)
              \<longrightarrow> request_port u = 443)
         \<and> (\<forall>n. parseInt (port u) = Some n \<and> n \<noteq> 0 \<longrightarrow> request_port u = n)"
    by (auto simp: request_port_cases)
  from p1 p2 c d show ?thesis by blast
qed

lemma parseInt_empty: "parseInt [] = None"
  by code_simp

lemma parseInt_8070: "parseInt ''8070'' = Some 8070"
  by code_simp

lemma parseInt_80: "parseInt ''80'' = Some 80"
  by code_simp

text \<open>
  The three cases on \<open>http://localhost\<close>, \<open>https://acme.example.com\<close> and
  \<open>http://localhost:8070\<close>.
\<close>

theorem request_port_scheme_default_witness:
  "url_table (url example_config)
     = Some \<lparr>protocol = ''http:'', hostname = ''localhost'', port = '''', pathname = ''/''\<rparr>
   \<and> request_port \<lparr>protocol = ''http:'', hostname = ''localhost'', port = '''', pathname = ''/''\<rparr> = 8069
   \<and> url_table (url secure_config)
     = Some \<lparr>protocol = ''https:'', hostname = ''acme.example.com'', port = '''', pathname = ''/''\<rparr>
   \<and> request_port \<lparr>protocol = ''https:'', hostname = ''acme.example.com'', port = '''', pathname = ''/''\<rparr> = 443
   \<and> url_table (url ported_config)
     = Some \<lparr>protocol = ''http:'', hostname = ''localhost'', port = ''8070'', pathname = ''/''\<rparr>
   \<and> parseInt ''8070'' = Some 8070
   \<and> request_port \<lparr>protocol = ''http:'', hostname = ''localhost'', port = ''8070'', pathname = ''/''\<rparr> = 8070"
proof -
  have h1: "url_table (url example_config)
     = Some \<lparr>protocol = ''http:'', hostname = ''localhost'', port = '''', pathname = ''/''\<rparr>"
    by (simp add: url_table_def example_config_def)
  have h2: "url_table (url secure_config)
     = Some \<lparr>protocol = ''https:'', hostname = ''acme.example.com'', port = '''', pathname = ''/''\<rparr>"
    by (simp add: url_table_def secure_config_def)
  have h3: "url_table (url ported_config)
     = Some \<lparr>protocol = ''http:'', hostname = ''localhost'', port = ''8070'', pathname = ''/''\<rparr>"
    by (simp add: url_table_def ported_config_def)
  have a: "request_port \<lparr>protocol = ''http:'', hostname = ''localhost'', port = '''', pathname = ''/''\<rparr> = 8069"
    using h1 parseInt_empty
      request_port_scheme_default [where newURL = url_table and cfg = example_config
        and path = "''/xmlrpc/2/common''"
        and u = "\<lparr>protocol = ''http:'', hostname = ''localhost'', port = '''', pathname = ''/''\<rparr>"]
    by simp
  have b: "request_port \<lparr>protocol = ''https:'', hostname = ''acme.example.com'', port = '''', pathname = ''/''\<rparr> = 443"
    using h2 parseInt_empty
      request_port_scheme_default [where newURL = url_table and cfg = secure_config
        and path = "''/xmlrpc/2/common''"
        and u = "\<lparr>protocol = ''https:'', hostname = ''acme.example.com'', port = '''', pathname = ''/''\<rparr>"]
    by simp
  have c: "request_port \<lparr>protocol = ''http:'', hostname = ''localhost'', port = ''8070'', pathname = ''/''\<rparr> = 8070"
    using h3 parseInt_8070
      request_port_scheme_default [where newURL = url_table and cfg = ported_config
        and path = "''/xmlrpc/2/common''"
        and u = "\<lparr>protocol = ''http:'', hostname = ''localhost'', port = ''8070'', pathname = ''/''\<rparr>"]
    by simp
  from h1 h2 h3 a b c parseInt_8070 show ?thesis by simp
qed

text \<open>
  The address \<open>http://localhost:80\<close> names port 80, a port text that \<open>parseInt\<close>
  reads as 80. The URL constructor reports an empty \<open>port\<close> for it, and both sub-steps
  connect to 8069.
\<close>

theorem request_port_counterexample:
  "url default_port_config = ''http://localhost:80''
   \<and> parseInt ''80'' = Some 80
   \<and> url_table (url default_port_config)
     = Some \<lparr>protocol = ''http:'', hostname = ''localhost'', port = '''', pathname = ''/''\<rparr>
   \<and> opt_port (testHttpEndpoint_options
                 \<lparr>protocol = ''http:'', hostname = ''localhost'', port = '''', pathname = ''/''\<rparr>
                 ''/xmlrpc/2/common'') = 8069
   \<and> opt_port (inspectResponseBody_options
                 \<lparr>protocol = ''http:'', hostname = ''localhost'', port = '''', pathname = ''/''\<rparr>
                 ''/xmlrpc/2/common'') = 8069
   \<and> (8069::int) \<noteq> 80"
  using parseInt_80 parseInt_empty
  by (simp add: default_port_config_def url_table_def testHttpEndpoint_options_def
      inspectResponseBody_options_def request_port_def)

lemma msg405_not_generic:
  "''HTTP 405: XML-RPC endpoint found but method not allowed. This usually means the endpoint is correct but needs proper XML-RPC requests.''
   \<noteq> ''HTTP '' @ show_nat n @ '': '' @ sm @ ''. Check if XML-RPC is enabled on this Odoo instance.''"
proof
  assume "''HTTP 405: XML-RPC endpoint found but method not allowed. This usually means the endpoint is correct but needs proper XML-RPC requests.''
   = ''HTTP '' @ show_nat n @ '': '' @ sm @ ''. Check if XML-RPC is enabled on this Odoo instance.''"
  then have "take 2 (rev ''HTTP 405: XML-RPC endpoint found but method not allowed. This usually means the endpoint is correct but needs proper XML-RPC requests.'')
   = take 2 (rev (''HTTP '' @ show_nat n @ '': '' @ sm @ ''. Check if XML-RPC is enabled on this Odoo instance.''))"
    by (rule arg_cong)
  then show False by simp
qed

text \<open>
  C6. Let the configured address parse to \<open>u\<close>. The probe request carries a timeout of
  10000 ms, and the outcome follows the first event of that request: status 200, 400 or
  500 is a success whose payload carries the status, the \<open>content-type\<close> header and the
  whole header set; status 405 is a failure whose message says that the endpoint was
  found but the method is not allowed, and that message is never the generic one; any
  other status is a failure with the generic message asking to check that XML-RPC is
  enabled; an \<open>error\<close> event and a \<open>timeout\<close> event are failures with their own
  transport messages.
\<close>

theorem testHttpEndpoint_classification:
  assumes "newURL (url cfg) = Some u"
  shows "opt_timeout (testHttpEndpoint_options u path) = 10000
    \<and> (\<forall>st sm hs b. net (testHttpEndpoint_options u path) = Response st sm hs b
          \<and> (st = 200 \<or> st = 400 \<or> st = 500)
        \<longrightarrow> testHttpEndpoint newURL net cfg path
            = Inr \<lparr>success = True,
                   data = Some \<lparr>status = st, contentType = map_of hs ''content-type'', headers = hs\<rparr>,
                   error = None\<rparr>)
    \<and> (\<forall>sm hs b. net (testHttpEndpoint_options u path) = Response 405 sm hs b
        \<longrightarrow> testHttpEndpoint newURL net cfg path
            = Inr \<lparr>success = False, data = None,
                   error = Some ''HTTP 405: XML-RPC endpoint found but method not allowed. This usually means the endpoint is correct but needs proper XML-RPC requests.''\<rparr>
          \<and> ''HTTP 405: XML-RPC endpoint found but method not allowed. This usually means the endpoint is correct but needs proper XML-RPC requests.''
            \<noteq> ''HTTP '' @ show_nat 405 @ '': '' @ sm @ ''. Check if XML-RPC is enabled on this Odoo instance.'')
    \<and> (\<forall>st sm hs b. net (testHttpEndpoint_options u path) = Response st sm hs b
          \<and> st \<noteq> 200 \<and> st \<noteq> 400 \<and> st \<noteq> 500 \<and> st \<noteq> 405
        \<longrightarrow> testHttpEndpoint newURL net cfg path
            = Inr \<lparr>success = False, data = None,
                   error = Some (''HTTP '' @ show_nat st @ '': '' @ sm
                                 @ ''. Check if XML-RPC is enabled on this Odoo instance.'')\<rparr>)
    \<and> (\<forall>m. net (testHttpEndpoint_options u path) = RequestError m
        \<longrightarrow> testHttpEndpoint newURL net cfg path
            = Inr \<lparr>success = False, data = None,
                   error = Some (''HTTP request failed: '' @ m
                                 @ ''. Check URL and network connectivity.'')\<rparr>)
    \<and> (net (testHttpEndpoint_options u path) = RequestTimeout
        \<longrightarrow> testHttpEndpoint newURL net cfg path
            = Inr \<lparr>success = False, data = None,
                   error = Some ''HTTP request timed out. Server might be overloaded or unreachable.''\<rparr>)"
proof -
  have t: "opt_timeout (testHttpEndpoint_options u path) = 10000"
    by (simp add: testHttpEndpoint_options_def Let_def)
  have ok: "\<forall>st sm hs b. net (testHttpEndpoint_options u path) = Response st sm hs b
          \<and> (st = 200 \<or> st = 400 \<or> st = 500)
        \<longrightarrow> testHttpEndpoint newURL net cfg path
            = Inr \<lparr>success = True,
                   data = Some \<lparr>status = st, contentType = map_of hs ''content-type'', headers = hs\<rparr>,
                   error = None\<rparr>"
    using assms by (auto simp: testHttpEndpoint_def)
  have m405: "\<forall>sm hs b. net (testHttpEndpoint_options u path) = Response 405 sm hs b
        \<longrightarrow> testHttpEndpoint newURL net cfg path
            = Inr \<lparr>success = False, data = None,
                   error = Some ''HTTP 405: XML-RPC endpoint found but method not allowed. This usually means the endpoint is correct but needs proper XML-RPC requests.''\<rparr>
          \<and> ''HTTP 405: XML-RPC endpoint found but method not allowed. This usually means the endpoint is correct but needs proper XML-RPC requests.''
            \<noteq> ''HTTP '' @ show_nat 405 @ '': '' @ sm @ ''. Check if XML-RPC is enabled on this Odoo instance.''"
    using assms msg405_not_generic [of 405] by (simp add: testHttpEndpoint_def)
  have other: "\<forall>st sm hs b. net (testHttpEndpoint_options u path) = Response st sm hs b
          \<and> st \<noteq> 200 \<and> st \<noteq> 400 \<and> st \<noteq> 500 \<and> st \<noteq> 405
        \<longrightarrow> testHttpEndpoint newURL net cfg path
            = Inr \<lparr>success = False, data = None,
                   error = Some (''HTTP '' @ show_nat st @ '': '' @ sm
                                 @ ''. Check if XML-RPC is enabled on this Odoo instance.'')\<rparr>"
    using assms by (simp add: testHttpEndpoint_def)
  have err: "\<forall>m. net (testHttpEndpoint_options u path) = RequestError m
        \<longrightarrow> testHttpEndpoint newURL net cfg path
            = Inr \<lparr>success = False, data = None,
                   error = Some (''HTTP request failed: '' @ m
                                 @ ''. Check URL and network connectivity.'')\<rparr>"
    using assms by (simp add: testHttpEndpoint_def)
  have tmo: "net (testHttpEndpoint_options u path) = RequestTimeout
        \<longrightarrow> testHttpEndpoint newURL net cfg path
            = Inr \<lparr>success = False, data = None,
                   error = Some ''HTTP request timed out. Server might be overloaded or unreachable.''\<rparr>"
    using assms by (simp add: testHttpEndpoint_def)
  from t ok m405 other err tmo show ?thesis by blast
qed

lemma show_nat_404: "show_nat 404 = ''404''"
  by code_simp

text \<open>
  The five classes on \<open>http://localhost\<close>: 200, 405, 404, a refused connection and a
  timeout.
\<close>

theorem testHttpEndpoint_classification_witness:
  "url_table (url example_config)
     = Some \<lparr>protocol = ''http:'', hostname = ''localhost'', port = '''', pathname = ''/''\<rparr>
   \<and> testHttpEndpoint url_table
        (net_always (Response 200 ''OK'' [(''content-type'', ''text/xml'')] (Body '''')))
        example_config ''/xmlrpc/2/common''
     = Inr \<lparr>success = True,
            data = Some \<lparr>status = 200, contentType = Some ''text/xml'',
                         headers = [(''content-type'', ''text/xml'')]\<rparr>,
            error = None\<rparr>
   \<and> testHttpEndpoint url_table
        (net_always (Response 405 ''Method Not Allowed'' [] (Body '''')))
        example_config ''/xmlrpc/2/common''
     = Inr \<lparr>success = False, data = None,
            error = Some ''HTTP 405: XML-RPC endpoint found but method not allowed. This usually means the endpoint is correct but needs proper XML-RPC requests.''\<rparr>
   \<and> testHttpEndpoint url_table
        (net_always (Response 404 ''Not Found'' [] (Body '''')))
        example_config ''/xmlrpc/2/common''
     = Inr \<lparr>success = False, data = None,
            error = Some ''HTTP 404: Not Found. Check if XML-RPC is enabled on this Odoo instance.''\<rparr>
   \<and> testHttpEndpoint url_table (net_always (RequestError ''connect ECONNREFUSED''))
        example_config ''/xmlrpc/2/common''
     = Inr \<lparr>success = False, data = None,
            error = Some ''HTTP request failed: connect ECONNREFUSED. Check URL and network connectivity.''\<rparr>
   \<and> testHttpEndpoint url_table (net_always RequestTimeout) example_config ''/xmlrpc/2/common''
     = Inr \<lparr>success = False, data = None,
            error = Some ''HTTP request timed out. Server might be overloaded or unreachable.''\<rparr>"
proof -
  have h: "url_table (url example_config)
     = Some \<lparr>protocol = ''http:'', hostname = ''localhost'', port = '''', pathname = ''/''\<rparr>"
    by (simp add: url_table_def example_config_def)
  have a: "testHttpEndpoint url_table
        (net_always (Response 200 ''OK'' [(''content-type'', ''text/xml'')] (Body '''')))
        example_config ''/xmlrpc/2/common''
     = Inr \<lparr>success = True,
            data = Some \<lparr>status = 200, contentType = Some ''text/xml'',
                         headers = [(''content-type'', ''text/xml'')]\<rparr>,
            error = None\<rparr>"
    using h testHttpEndpoint_classification [where newURL = url_table and cfg = example_config
        and u = "\<lparr>protocol = ''http:'', hostname = ''localhost'', port = '''', pathname = ''/''\<rparr>"
        and path = "''/xmlrpc/2/common''"
        and net = "net_always (Response 200 ''OK'' [(''content-type'', ''text/xml'')] (Body ''''))"]
    by (simp add: net_always_def)
  have b: "testHttpEndpoint url_table
        (net_always (Response 405 ''Method Not Allowed'' [] (Body '''')))
        example_config ''/xmlrpc/2/common''
     = Inr \<lparr>success = False, data = None,
            error = Some ''HTTP 405: XML-RPC endpoint found but method not allowed. This usually means the endpoint is correct but needs proper XML-RPC requests.''\<rparr>"
    using h testHttpEndpoint_classification [where newURL = url_table and cfg = example_config
        and u = "\<lparr>protocol = ''http:'', hostname = ''localhost'', port = '''', pathname = ''/''\<rparr>"
        and path = "''/xmlrpc/2/common''"
        and net = "net_always (Response 405 ''Method Not Allowed'' [] (Body ''''))"]
    by (simp add: net_always_def)
  have c: "testHttpEndpoint url_table
        (net_always (Response 404 ''Not Found'' [] (Body '''')))
        example_config ''/xmlrpc/2/common''
     = Inr \<lparr>success = False, data = None,
            error = Some ''HTTP 404: Not Found. Check if XML-RPC is enabled on this Odoo instance.''\<rparr>"
    using h testHttpEndpoint_classification [where newURL = url_table and cfg = example_config
        and u = "\<lparr>protocol = ''http:'', hostname = ''localhost'', port = '''', pathname = ''/''\<rparr>"
        and path = "''/xmlrpc/2/common''"
        and net = "net_always (Response 404 ''Not Found'' [] (Body ''''))"]
    by (simp add: net_always_def show_nat_404 del: show_nat.simps)
  have d: "testHttpEndpoint url_table (net_always (RequestError ''connect ECONNREFUSED''))
        example_config ''/xmlrpc/2/common''
     = Inr \<lparr>success = False, data = None,
            error = Some ''HTTP request failed: connect ECONNREFUSED. Check URL and network connectivity.''\<rparr>"
    using h testHttpEndpoint_classification [where newURL = url_table and cfg = example_config
        and u = "\<lparr>protocol = ''http:'', hostname = ''localhost'', port = '''', pathname = ''/''\<rparr>"
        and path = "''/xmlrpc/2/common''"
        and net = "net_always (RequestError ''connect ECONNREFUSED'')"]
    by (simp add: net_always_def)
  have e: "testHttpEndpoint url_table (net_always RequestTimeout) example_config ''/xmlrpc/2/common''
     = Inr \<lparr>success = False, data = None,
            error = Some ''HTTP request timed out. Server might be overloaded or unreachable.''\<rparr>"
    using h testHttpEndpoint_classification [where newURL = url_table and cfg = example_config
        and u = "\<lparr>protocol = ''http:'', hostname = ''localhost'', port = '''', pathname = ''/''\<rparr>"
        and path = "''/xmlrpc/2/common''"
        and net = "net_always RequestTimeout"]
    by (simp add: net_always_def)
  from h a b c d e show ?thesis by simp
qed






section \<open>Properties of the response validator\<close>

lemma validate_no_error:
  "validateXmlRpcResponse newURL net cfg None v operation
   = Inr \<lparr>success = True, data = Some v, error = None\<rparr>"
  by (simp add: validateXmlRpcResponse_def)

lemma validate_error_not_success:
  "validateXmlRpcResponse newURL net cfg (Some e) v operation = Inr out \<Longrightarrow> success out = False"
  by (auto simp: validateXmlRpcResponse_def Let_def split: option.splits if_splits sum.splits)

lemma validate_error_head:
  assumes "validateXmlRpcResponse newURL net cfg (Some e) v ''Authentication'' = Inr out"
  shows "\<exists>rest. error out = Some (CHR ''A'' # rest) \<or> error out = Some (CHR ''S'' # rest)"
  using assms
  by (auto simp: validateXmlRpcResponse_def detailedError_def Let_def
           split: option.splits if_splits sum.splits)











section \<open>Properties of the RPC session\<close>

text \<open>
  C3. Let the transport call back without error, before the timer, with identity \<open>v\<close>.
  If \<open>v\<close> is falsy, \<open>authenticate()\<close> resolves to the failure
  \<open>Invalid credentials or API key. ...\<close> and leaves \<open>uid\<close> as it was. If \<open>v\<close> is
  truthy, it stores \<open>v\<close> in \<open>uid\<close> and resolves to a success whose payload is \<open>v\<close>.
  The invalid-credentials message is distinct from every other failure of the call: a
  timeout, a generic remote failure and a structural diagnosis all resolve to a failure
  with a different message.
\<close>

theorem authenticate_identity:
  assumes "transport (authenticate_call (config c)) = Replied None v"
  shows "(\<not> truthy v \<longrightarrow>
            authenticate newURL net transport c
            = (Some \<lparr>success = False, data = None,
                     error = Some ''Invalid credentials or API key. Check your username, database name, and API key.''\<rparr>,
               c\<lparr>calls := calls c @ [authenticate_call (config c)]\<rparr>)
            \<and> uid (snd (authenticate newURL net transport c)) = uid c)
    \<and> (truthy v \<longrightarrow>
            authenticate newURL net transport c
            = (Some \<lparr>success = True, data = Some v, error = None\<rparr>,
               c\<lparr>uid := v, calls := calls c @ [authenticate_call (config c)]\<rparr>)
            \<and> uid (snd (authenticate newURL net transport c)) = v)
    \<and> (\<forall>other r c'.
          (other (authenticate_call (config c)) = TimerFired
           \<or> (\<exists>e w. other (authenticate_call (config c)) = Replied (Some e) w))
          \<and> authenticate newURL net other c = (Some r, c')
          \<longrightarrow> success r = False
              \<and> error r \<noteq> Some ''Invalid credentials or API key. Check your username, database name, and API key.'')"
proof -
  have falsy: "\<not> truthy v \<longrightarrow>
            authenticate newURL net transport c
            = (Some \<lparr>success = False, data = None,
                     error = Some ''Invalid credentials or API key. Check your username, database name, and API key.''\<rparr>,
               c\<lparr>calls := calls c @ [authenticate_call (config c)]\<rparr>)
            \<and> uid (snd (authenticate newURL net transport c)) = uid c"
    using assms
    by (simp add: authenticate_def authenticate_events_def authenticate_begin_def
        authenticate_on_event_def validate_no_error resolve_def)
  have stored: "truthy v \<longrightarrow>
            authenticate newURL net transport c
            = (Some \<lparr>success = True, data = Some v, error = None\<rparr>,
               c\<lparr>uid := v, calls := calls c @ [authenticate_call (config c)]\<rparr>)
            \<and> uid (snd (authenticate newURL net transport c)) = v"
    using assms
    by (simp add: authenticate_def authenticate_events_def authenticate_begin_def
        authenticate_on_event_def validate_no_error resolve_def)
  have distinct_msg: "success r = False
              \<and> error r \<noteq> Some ''Invalid credentials or API key. Check your username, database name, and API key.''"
    if o: "other (authenticate_call (config c)) = TimerFired
           \<or> (\<exists>e w. other (authenticate_call (config c)) = Replied (Some e) w)"
      and a: "authenticate newURL net other c = (Some r, c')" for other r c'
  proof -
    from o show ?thesis
    proof
      assume "other (authenticate_call (config c)) = TimerFired"
      then show ?thesis
        using a
        by (auto simp: authenticate_def authenticate_events_def authenticate_begin_def
            authenticate_on_event_def resolve_def)
    next
      assume "\<exists>e w. other (authenticate_call (config c)) = Replied (Some e) w"
      then obtain e w where ew: "other (authenticate_call (config c)) = Replied (Some e) w"
        by blast
      show ?thesis
      proof (cases "validateXmlRpcResponse newURL net (config c) (Some e) w ''Authentication''")
        case (Inl x)
        then show ?thesis
          using a ew
          by (simp add: authenticate_def authenticate_events_def authenticate_begin_def
              authenticate_on_event_def)
      next
        case (Inr out)
        have ns: "success out = False" using Inr by (rule validate_error_not_success)
        obtain rest where hd: "error out = Some (CHR ''A'' # rest) \<or> error out = Some (CHR ''S'' # rest)"
          using validate_error_head [OF Inr] by blast
        have "r = out"
          using a ew Inr ns
          by (simp add: authenticate_def authenticate_events_def authenticate_begin_def
              authenticate_on_event_def resolve_def)
        then show ?thesis using ns hd by auto
      qed
    qed
  qed
  from falsy stored distinct_msg show ?thesis by blast
qed

text \<open>
  A server that answers \<open>false\<close>, and a server that answers identity 2, on a fresh
  client.
\<close>

theorem authenticate_identity_witness:
  "rejecting_transport (authenticate_call (config (new_OdooClient example_config)))
     = Replied None (VBool False)
   \<and> \<not> truthy (VBool False)
   \<and> fst (authenticate url_table net_down rejecting_transport (new_OdooClient example_config))
     = Some \<lparr>success = False, data = None,
              error = Some ''Invalid credentials or API key. Check your username, database name, and API key.''\<rparr>
   \<and> uid (snd (authenticate url_table net_down rejecting_transport (new_OdooClient example_config)))
     = VNull
   \<and> accepting_transport (authenticate_call (config (new_OdooClient example_config)))
     = Replied None (VNum 2)
   \<and> truthy (VNum 2)
   \<and> fst (authenticate url_table net_down accepting_transport (new_OdooClient example_config))
     = Some \<lparr>success = True, data = Some (VNum 2), error = None\<rparr>
   \<and> uid (snd (authenticate url_table net_down accepting_transport (new_OdooClient example_config)))
     = VNum 2"
proof -
  have h1: "rejecting_transport (authenticate_call (config (new_OdooClient example_config)))
     = Replied None (VBool False)"
    by (simp add: rejecting_transport_def)
  have h2: "accepting_transport (authenticate_call (config (new_OdooClient example_config)))
     = Replied None (VNum 2)"
    by (simp add: accepting_transport_def authenticate_call_def)
  have a: "fst (authenticate url_table net_down rejecting_transport (new_OdooClient example_config))
     = Some \<lparr>success = False, data = None,
              error = Some ''Invalid credentials or API key. Check your username, database name, and API key.''\<rparr>
   \<and> uid (snd (authenticate url_table net_down rejecting_transport (new_OdooClient example_config)))
     = VNull"
    using h1 authenticate_identity [where newURL = url_table and net = net_down
        and transport = rejecting_transport and c = "new_OdooClient example_config"
        and v = "VBool False"]
    by (simp add: new_OdooClient_def)
  have b: "fst (authenticate url_table net_down accepting_transport (new_OdooClient example_config))
     = Some \<lparr>success = True, data = Some (VNum 2), error = None\<rparr>
   \<and> uid (snd (authenticate url_table net_down accepting_transport (new_OdooClient example_config)))
     = VNum 2"
    using h2 authenticate_identity [where newURL = url_table and net = net_down
        and transport = accepting_transport and c = "new_OdooClient example_config"
        and v = "VNum 2"]
    by simp
  from h1 h2 a b show ?thesis by simp
qed

lemma authenticate_events_snoc:
  "authenticate_events newURL net (evs @ [ev]) c
   = authenticate_on_event newURL net ev (authenticate_events newURL net evs c)"
  by (simp add: authenticate_events_def)

lemma authenticate_after_timeout:
  "authenticate_events newURL net (TimerFired # evs) c = (c', p) \<Longrightarrow>
     settled p = Some \<lparr>success = False, data = None,
                       error = Some ''Authentication timed out - check your credentials and Odoo server status''\<rparr>
     \<and> timer p = None
     \<and> (uid c' = uid c \<or> (\<exists>v. Replied None v \<in> set evs \<and> truthy v \<and> uid c' = v))"
proof (induction evs arbitrary: c' p rule: rev_induct)
  case Nil
  then show ?case
    by (auto simp: authenticate_events_def authenticate_begin_def authenticate_on_event_def
        resolve_def)
next
  case (snoc ev evs)
  obtain c1 p1 where cp1: "authenticate_events newURL net (TimerFired # evs) c = (c1, p1)"
    by (cases "authenticate_events newURL net (TimerFired # evs) c") blast
  note ih = snoc.IH [OF cp1]
  have step: "authenticate_on_event newURL net ev (c1, p1) = (c', p)"
    using snoc.prems cp1 authenticate_events_snoc [of newURL net "TimerFired # evs" ev c]
    by simp
  show ?case
  proof (cases ev)
    case TimerFired
    then show ?thesis using step ih by (auto simp: authenticate_on_event_def)
  next
    case (Replied err v)
    show ?thesis
    proof (cases err)
      case None
      then show ?thesis
        using step ih Replied
        by (auto simp: authenticate_on_event_def validate_no_error resolve_def Let_def
            split: if_splits)
    next
      case (Some e)
      show ?thesis
      proof (cases "validateXmlRpcResponse newURL net (config c1) (Some e) v ''Authentication''")
        case (Inl x)
        then show ?thesis
          using step ih Replied Some by (auto simp: authenticate_on_event_def Let_def)
      next
        case (Inr out)
        then show ?thesis
          using step ih Replied Some validate_error_not_success [OF Inr]
          by (auto simp: authenticate_on_event_def resolve_def Let_def)
      qed
    qed
  qed
qed

lemma validate_not_timeout:
  assumes "validateXmlRpcResponse newURL net cfg err v ''Authentication'' = Inr out"
  shows "out \<noteq> \<lparr>success = False, data = None,
                  error = Some ''Authentication timed out - check your credentials and Odoo server status''\<rparr>"
proof
  assume eq: "out = \<lparr>success = False, data = None,
                  error = Some ''Authentication timed out - check your credentials and Odoo server status''\<rparr>"
  show False
  proof (cases err)
    case None
    then show False using assms eq by (simp add: validate_no_error)
  next
    case (Some e)
    have "error out = Some (''Authentication failed: '' @ error_text e)
          \<or> (\<exists>rest. error out = Some (CHR ''S'' # rest))"
      using assms Some
      by (auto simp: validateXmlRpcResponse_def detailedError_def Let_def
               split: option.splits if_splits sum.splits)
    then show False using eq by auto
  qed
qed

lemma authenticate_callback_first:
  "authenticate_events newURL net (Replied e v # evs) c = (c', p) \<Longrightarrow>
     timer p = None
     \<and> settled p \<noteq> Some \<lparr>success = False, data = None,
                           error = Some ''Authentication timed out - check your credentials and Odoo server status''\<rparr>"
proof (induction evs arbitrary: c' p rule: rev_induct)
  case Nil
  show ?case
  proof (cases "validateXmlRpcResponse newURL net (config c) e v ''Authentication''")
    case (Inl x)
    then show ?thesis
      using Nil
      by (auto simp: authenticate_events_def authenticate_begin_def authenticate_on_event_def
          Let_def)
  next
    case (Inr out)
    then show ?thesis
      using Nil validate_not_timeout [OF Inr]
      by (auto simp: authenticate_events_def authenticate_begin_def authenticate_on_event_def
          Let_def resolve_def split: if_splits)
  qed
next
  case (snoc ev evs)
  obtain c1 p1 where cp1: "authenticate_events newURL net (Replied e v # evs) c = (c1, p1)"
    by (cases "authenticate_events newURL net (Replied e v # evs) c") blast
  note ih = snoc.IH [OF cp1]
  have step: "authenticate_on_event newURL net ev (c1, p1) = (c', p)"
    using snoc.prems cp1 authenticate_events_snoc [of newURL net "Replied e v # evs" ev c]
    by simp
  show ?case
  proof (cases ev)
    case TimerFired
    then show ?thesis using step ih by (auto simp: authenticate_on_event_def)
  next
    case (Replied err w)
    show ?thesis
    proof (cases "validateXmlRpcResponse newURL net (config c1) err w ''Authentication''")
      case (Inl x)
      then show ?thesis
        using step ih Replied by (auto simp: authenticate_on_event_def Let_def)
    next
      case (Inr out)
      then show ?thesis
        using step ih Replied validate_not_timeout [OF Inr]
        by (auto simp: authenticate_on_event_def Let_def resolve_def
            split: if_splits option.splits)
    qed
  qed
qed

text \<open>
  C2 (as the code has it). \<open>authenticate()\<close> arms a timer of 15000 ms. Let that timer
  fire before the transport's callback is invoked, and let any events follow. The
  promise is settled with the failure \<open>Authentication timed out - ...\<close> and no later
  event replaces that outcome. The timer's handler does not touch \<open>uid\<close>; \<open>uid\<close>
  stays as it was as long as no later callback arrives without error and with a truthy
  identity, and when \<open>uid\<close> has changed, it holds the truthy identity of such a late
  callback. A callback that arrives right after the timer, without error and with a
  truthy identity, stores that identity, while the outcome stays the timeout failure.
  When the callback is invoked first, it clears the timer, and the call never yields the
  timeout failure, whatever follows and however long the callback's diagnostics take.
\<close>

theorem authenticate_timeout_outcome:
  assumes "authenticate_events newURL net (TimerFired # evs) c = (c', p)"
  shows "timer (snd (authenticate_begin c)) = Some 15000
    \<and> settled p = Some \<lparr>success = False, data = None,
                           error = Some ''Authentication timed out - check your credentials and Odoo server status''\<rparr>
    \<and> uid (fst (authenticate_events newURL net [TimerFired] c)) = uid c
    \<and> ((\<forall>v. Replied None v \<in> set evs \<longrightarrow> \<not> truthy v) \<longrightarrow> uid c' = uid c)
    \<and> (uid c' \<noteq> uid c \<longrightarrow> (\<exists>v. Replied None v \<in> set evs \<and> truthy v \<and> uid c' = v))
    \<and> (\<forall>v. truthy v \<longrightarrow>
          uid (fst (authenticate_events newURL net [TimerFired, Replied None v] c)) = v
          \<and> settled (snd (authenticate_events newURL net [TimerFired, Replied None v] c))
            = Some \<lparr>success = False, data = None,
                     error = Some ''Authentication timed out - check your credentials and Odoo server status''\<rparr>)
    \<and> (\<forall>e v later.
          timer (snd (authenticate_events newURL net (Replied e v # later) c)) = None
          \<and> settled (snd (authenticate_events newURL net (Replied e v # later) c))
            \<noteq> Some \<lparr>success = False, data = None,
                     error = Some ''Authentication timed out - check your credentials and Odoo server status''\<rparr>)"
proof -
  have early: "\<forall>e v later.
          timer (snd (authenticate_events newURL net (Replied e v # later) c)) = None
          \<and> settled (snd (authenticate_events newURL net (Replied e v # later) c))
            \<noteq> Some \<lparr>success = False, data = None,
                     error = Some ''Authentication timed out - check your credentials and Odoo server status''\<rparr>"
  proof (intro allI)
    fix e v later
    show "timer (snd (authenticate_events newURL net (Replied e v # later) c)) = None
          \<and> settled (snd (authenticate_events newURL net (Replied e v # later) c))
            \<noteq> Some \<lparr>success = False, data = None,
                     error = Some ''Authentication timed out - check your credentials and Odoo server status''\<rparr>"
      using authenticate_callback_first [of newURL net e v later c
          "fst (authenticate_events newURL net (Replied e v # later) c)"
          "snd (authenticate_events newURL net (Replied e v # later) c)"]
      by simp
  qed
  have late: "\<forall>v. truthy v \<longrightarrow>
          uid (fst (authenticate_events newURL net [TimerFired, Replied None v] c)) = v
          \<and> settled (snd (authenticate_events newURL net [TimerFired, Replied None v] c))
            = Some \<lparr>success = False, data = None,
                     error = Some ''Authentication timed out - check your credentials and Odoo server status''\<rparr>"
    by (simp add: authenticate_events_def authenticate_begin_def authenticate_on_event_def
        validate_no_error resolve_def)
  have now: "uid (fst (authenticate_events newURL net [TimerFired] c)) = uid c"
    by (simp add: authenticate_events_def authenticate_begin_def authenticate_on_event_def)
  have armed: "timer (snd (authenticate_begin c)) = Some 15000"
    by (simp add: authenticate_begin_def)
  from authenticate_after_timeout [OF assms] now armed late early show ?thesis by blast
qed

text \<open>
  The timer fires and the server answers \<open>false\<close> afterwards: the outcome is the timeout
  failure and \<open>uid\<close> is still \<open>null\<close>. The unknown-tag error arrives first and the
  timer's moment afterwards: the timer is cleared and the outcome is not the timeout
  failure.
\<close>

theorem authenticate_timeout_outcome_witness:
  "settled (snd (authenticate_events url_table net_down late_rejection (new_OdooClient example_config)))
     = Some \<lparr>success = False, data = None,
              error = Some ''Authentication timed out - check your credentials and Odoo server status''\<rparr>
   \<and> late_rejection = [TimerFired, Replied None (VBool False)]
   \<and> \<not> truthy (VBool False)
   \<and> uid (fst (authenticate_events url_table net_down late_rejection (new_OdooClient example_config)))
       = uid (new_OdooClient example_config)
   \<and> uid (fst (authenticate_events url_table net_down [TimerFired] (new_OdooClient example_config)))
       = uid (new_OdooClient example_config)
   \<and> timer (snd (authenticate_events url_table net_down early_unknown_tag
                    (new_OdooClient example_config))) = None
   \<and> settled (snd (authenticate_events url_table net_down early_unknown_tag
                      (new_OdooClient example_config)))
     \<noteq> Some \<lparr>success = False, data = None,
              error = Some ''Authentication timed out - check your credentials and Odoo server status''\<rparr>
   \<and> settled (snd (authenticate_events url_table net_down early_unknown_tag
                      (new_OdooClient example_config)))
     = Some \<lparr>success = False, data = None,
              error = Some (''Server returned non-XML-RPC response (found <HTML> tag). '' @ nl @ nl
                            @ ''Endpoint test failed: HTTP request timed out. Server might be overloaded or unreachable.'')\<rparr>"
proof -
  have diag: "settled (snd (authenticate_events url_table net_down early_unknown_tag
                      (new_OdooClient example_config)))
     = Some \<lparr>success = False, data = None,
              error = Some (''Server returned non-XML-RPC response (found <HTML> tag). '' @ nl @ nl
                            @ ''Endpoint test failed: HTTP request timed out. Server might be overloaded or unreachable.'')\<rparr>"
    by code_simp
  show ?thesis
    using diag authenticate_timeout_outcome [where newURL = url_table and net = net_down
      and evs = "[Replied None (VBool False)]" and c = "new_OdooClient example_config"
      and c' = "fst (authenticate_events url_table net_down late_rejection (new_OdooClient example_config))"
      and p = "snd (authenticate_events url_table net_down late_rejection (new_OdooClient example_config))"]
    by (simp add: late_rejection_def early_unknown_tag_def)
qed

text \<open>
  The timer fires and the server answers identity 7 afterwards: the call has resolved to
  the timeout failure, and its late callback has replaced the \<open>null\<close> in \<open>uid\<close> by 7.
\<close>

theorem authenticate_timeout_counterexample:
  "settled (snd (authenticate_events url_table net_down late_identity (new_OdooClient example_config)))
     = Some \<lparr>success = False, data = None,
              error = Some ''Authentication timed out - check your credentials and Odoo server status''\<rparr>
   \<and> uid (new_OdooClient example_config) = VNull
   \<and> uid (fst (authenticate_events url_table net_down late_identity (new_OdooClient example_config)))
     = VNum 7"
  by (simp add: late_identity_def authenticate_events_def authenticate_begin_def
      authenticate_on_event_def validate_no_error resolve_def new_OdooClient_def)

lemma authenticate_effect:
  "authenticate newURL net transport c = (r, c1) \<Longrightarrow>
     calls c1 = calls c @ [authenticate_call (config c)] \<and> config c1 = config c"
  by (cases "transport (authenticate_call (config c))")
     (auto simp: authenticate_def authenticate_events_def authenticate_begin_def
        authenticate_on_event_def Let_def split: sum.splits if_splits)

lemma search_query_calls:
  "calls (snd (search_query newURL net transport c model ps))
   = calls c @ [search_read_call c model ps]"
  by (auto simp: search_query_def Let_def split: call_event.splits sum.splits)



lemma client_search_read_call: "client (search_read_call c model ps) = Object"
  by (simp add: search_read_call_def Let_def)

lemma client_authenticate_call: "client (authenticate_call cfg) = Common"
  by (simp add: authenticate_call_def)

lemma searchRead_calls:
  "calls (snd (searchRead newURL net transport c model ps)) =
     (if truthy (uid c) then calls c @ [search_read_call c model ps]
      else case authenticate newURL net transport c of
             (None, c1) \<Rightarrow> calls c @ [authenticate_call (config c)]
           | (Some r, c1) \<Rightarrow>
               if success r
               then calls c @ [authenticate_call (config c), search_read_call c1 model ps]
               else calls c @ [authenticate_call (config c)])"
proof (cases "truthy (uid c)")
  case True
  then show ?thesis by (simp add: searchRead_def search_query_calls)
next
  case False
  obtain r c1 where a: "authenticate newURL net transport c = (r, c1)"
    by (cases "authenticate newURL net transport c") blast
  note e = authenticate_effect [OF a]
  show ?thesis
    using False a e by (cases r) (simp_all add: searchRead_def search_query_calls)
qed



text \<open>
  C5 (as the code has it). Every call that \<open>searchRead\<close> hands to the object endpoint
  is \<open>execute_kw\<close> with seven arguments, \<open>search_read\<close> on the given model, and the
  keyword arguments \<open>fields\<close>, \<open>limit\<close>, \<open>offset\<close>, \<open>order\<close>: \<open>fields\<close> is
  \<open>undefined\<close> when the requested list is absent or empty and the list otherwise;
  \<open>limit\<close>, \<open>offset\<close> and \<open>order\<close> are 100, 0 and \<open>id desc\<close> when unspecified and
  the caller's values, unchanged, otherwise. \<open>searchRead\<close> applies no cap to \<open>limit\<close>.
  With an identity held the query is always sent.
\<close>

theorem searchRead_request_parameters:
  "(\<forall>k \<in> set (drop (length (calls c)) (calls (snd (searchRead newURL net transport c model ps)))).
      client k = Object \<longrightarrow>
        method_name k = ''execute_kw''
        \<and> length (params k) = 7
        \<and> params k ! 3 = VStr model
        \<and> params k ! 4 = VStr ''search_read''
        \<and> params k ! 6 =
            VStruct [(''fields'', case field_names ps of
                                    None \<Rightarrow> VUndefined
                                  | Some f \<Rightarrow> if f = [] then VUndefined else VArr (map VStr f)),
                     (''limit'', VNum (case limit ps of None \<Rightarrow> 100 | Some l \<Rightarrow> l)),
                     (''offset'', VNum (case offset ps of None \<Rightarrow> 0 | Some j \<Rightarrow> j)),
                     (''order'', VStr (case order ps of None \<Rightarrow> ''id desc'' | Some r \<Rightarrow> r))])
   \<and> (truthy (uid c) \<longrightarrow>
        (\<exists>k. calls (snd (searchRead newURL net transport c model ps)) = calls c @ [k]
             \<and> client k = Object))"
proof -
  have kw: "client k = Object \<longrightarrow>
        method_name k = ''execute_kw''
        \<and> length (params k) = 7
        \<and> params k ! 3 = VStr model
        \<and> params k ! 4 = VStr ''search_read''
        \<and> params k ! 6 =
            VStruct [(''fields'', case field_names ps of
                                    None \<Rightarrow> VUndefined
                                  | Some f \<Rightarrow> if f = [] then VUndefined else VArr (map VStr f)),
                     (''limit'', VNum (case limit ps of None \<Rightarrow> 100 | Some l \<Rightarrow> l)),
                     (''offset'', VNum (case offset ps of None \<Rightarrow> 0 | Some j \<Rightarrow> j)),
                     (''order'', VStr (case order ps of None \<Rightarrow> ''id desc'' | Some r \<Rightarrow> r))]"
    if "k = search_read_call c1 model ps" for k c1
    using that by (simp add: search_read_call_def Let_def split: option.splits)
  have new: "k = authenticate_call (config c) \<or> (\<exists>c1. k = search_read_call c1 model ps)"
    if "k \<in> set (drop (length (calls c)) (calls (snd (searchRead newURL net transport c model ps))))"
    for k
    using that
    by (auto simp: searchRead_calls split: if_splits prod.splits option.splits)
  have every: "\<forall>k \<in> set (drop (length (calls c)) (calls (snd (searchRead newURL net transport c model ps)))).
      client k = Object \<longrightarrow>
        method_name k = ''execute_kw''
        \<and> length (params k) = 7
        \<and> params k ! 3 = VStr model
        \<and> params k ! 4 = VStr ''search_read''
        \<and> params k ! 6 =
            VStruct [(''fields'', case field_names ps of
                                    None \<Rightarrow> VUndefined
                                  | Some f \<Rightarrow> if f = [] then VUndefined else VArr (map VStr f)),
                     (''limit'', VNum (case limit ps of None \<Rightarrow> 100 | Some l \<Rightarrow> l)),
                     (''offset'', VNum (case offset ps of None \<Rightarrow> 0 | Some j \<Rightarrow> j)),
                     (''order'', VStr (case order ps of None \<Rightarrow> ''id desc'' | Some r \<Rightarrow> r))]"
  proof
    fix k
    assume "k \<in> set (drop (length (calls c)) (calls (snd (searchRead newURL net transport c model ps))))"
    from new [OF this] show "client k = Object \<longrightarrow>
        method_name k = ''execute_kw''
        \<and> length (params k) = 7
        \<and> params k ! 3 = VStr model
        \<and> params k ! 4 = VStr ''search_read''
        \<and> params k ! 6 =
            VStruct [(''fields'', case field_names ps of
                                    None \<Rightarrow> VUndefined
                                  | Some f \<Rightarrow> if f = [] then VUndefined else VArr (map VStr f)),
                     (''limit'', VNum (case limit ps of None \<Rightarrow> 100 | Some l \<Rightarrow> l)),
                     (''offset'', VNum (case offset ps of None \<Rightarrow> 0 | Some j \<Rightarrow> j)),
                     (''order'', VStr (case order ps of None \<Rightarrow> ''id desc'' | Some r \<Rightarrow> r))]"
    proof
      assume "k = authenticate_call (config c)"
      then show ?thesis by (simp add: client_authenticate_call)
    next
      assume "\<exists>c1. k = search_read_call c1 model ps"
      then obtain c1 where "k = search_read_call c1 model ps" by blast
      then show ?thesis by (rule kw)
    qed
  qed
  have sent: "truthy (uid c) \<longrightarrow>
        (\<exists>k. calls (snd (searchRead newURL net transport c model ps)) = calls c @ [k]
             \<and> client k = Object)"
    by (simp add: searchRead_calls client_search_read_call)
  from every sent show ?thesis by blast
qed

text \<open>
  The defaults, on a client holding identity 2 and an empty query specification.
\<close>

theorem searchRead_request_parameters_witness:
  "truthy (uid held_client)
   \<and> (\<exists>k. calls (snd (searchRead url_table net_down accepting_transport held_client ''sale.order''
                        default_query)) = [k]
          \<and> client k = Object
          \<and> params k ! 6 = VStruct [(''fields'', VUndefined), (''limit'', VNum 100),
                                    (''offset'', VNum 0), (''order'', VStr ''id desc'')])"
proof -
  have t: "truthy (uid held_client)" by (simp add: held_client_def)
  have e: "calls held_client = []" by (simp add: held_client_def)
  show ?thesis
    using t e searchRead_request_parameters [where newURL = url_table and net = net_down
        and transport = accepting_transport and c = held_client and model = "''sale.order''"
        and ps = default_query]
    by (auto simp: default_query_def)
qed

text \<open>
  The tool schema documents a maximum of 1000 for \<open>limit\<close>. \<open>searchRead\<close> called with
  \<open>limit = 5000\<close> sends 5000.
\<close>

theorem searchRead_limit_counterexample:
  "limit big_query = Some 5000
   \<and> calls (snd (searchRead url_table net_down accepting_transport held_client ''sale.order''
                   big_query))
     = [search_read_call held_client ''sale.order'' big_query]
   \<and> params (search_read_call held_client ''sale.order'' big_query) ! 6
     = VStruct [(''fields'', VUndefined), (''limit'', VNum 5000),
                (''offset'', VNum 0), (''order'', VStr ''id desc'')]
   \<and> (1000::int) < 5000"
  by (simp add: searchRead_calls held_client_def big_query_def search_read_call_def)

end
